theory Spec2Isabelle
  imports Complex_Main
begin

section \<open>Conventions of the embedding\<close>

text \<open>
  The repository holds two React components that are both called \<open>InvoiceGenerator\<close>:
  the itemised invoice editor with a PDF download (\<open>src/unnamed/part_000\<close>) and the
  hourly invoice form that mails the PDF (\<open>src/unnamed/part_001\<close>).

  \<^item> A JavaScript \<open>number\<close> is an exact rational (\<open>rat\<close>): \<open>+\<close> and \<open>*\<close> are the
    exact operations, there is no \<open>NaN\<close> and no rounding error.
  \<^item> A JavaScript string is a \<open>string\<close>, a list of 8-bit characters.
  \<^item> A \<open>useState\<close> cell is a value; a handler is a function from the rendered state
    to the state it sets. Each handler runs on the state of the latest render.
  \<^item> Readings of the clock (\<open>Date.now()\<close>) and of \<open>Math.random()\<close> are arguments.
  \<^item> The \<open>jsPDF\<close> document is the list of the calls made on it, in order. What
    the library does inside a call (its encoding, its own exceptions) is not modelled.
\<close>

section \<open>Strings and numbers\<close>

definition digit :: "nat \<Rightarrow> char" where
  "digit d = ''0123456789'' ! d"

text \<open>\<open>Date.now().toString()\<close>: the decimal digits of a non-negative integer.\<close>

function show_nat :: "nat \<Rightarrow> string" where
  "show_nat n = (if n < 10 then [digit n] else show_nat (n div 10) @ [digit (n mod 10)])"
  by pat_completeness auto
termination
  by (relation "measure (\<lambda>n. n)") auto

declare show_nat.simps [simp del]

text \<open>
  The renderings of a number that is not known to be an integer are left symbolic:
  a template literal is the list of its pieces.
\<close>

datatype piece =
    Lit string
  | Num rat    \<comment> \<open>\<open>n.toString()\<close>, \<open>${n}\<close>\<close>
  | Fixed rat  \<comment> \<open>\<open>n.toFixed(2)\<close>\<close>

type_synonym template = "piece list"

section \<open>The itemised invoice editor (\<open>part_000\<close>)\<close>

subsection \<open>Data\<close>

record InvoiceItem =
  item_id :: string
  description :: string
  quantity :: rat
  rate :: rat
  amount :: rat

record ClientInfo =
  name :: string
  email :: string
  company :: "string option"
  address :: "string option"
  phone :: "string option"

record theme_colors =
  primary :: string
  secondary :: string
  accent :: string

record theme_fonts =
  heading :: string
  body :: string

record BrandTheme =
  theme_id :: string
  theme_name :: string
  colors :: theme_colors
  fonts :: theme_fonts

record ExpenseItem =
  expense_id :: string
  expense_description :: string
  expense_amount :: rat
  category :: string
  expense_date :: string
  confidence :: rat

text \<open>The initial value of the \<open>items\<close> cell (lines 61--63).\<close>

definition initial_items :: "InvoiceItem list" where
  "initial_items =
     [\<lparr>item_id = ''1'', description = '''', quantity = 1, rate = 0, amount = 0\<rparr>]"

subsection \<open>Handlers on the item list\<close>

text \<open>\<open>addItem\<close> (lines 69--78); \<open>now\<close> is the reading of \<open>Date.now()\<close>.\<close>

definition addItem :: "nat \<Rightarrow> InvoiceItem list \<Rightarrow> InvoiceItem list" where
  "addItem now items =
     (let newItem = \<lparr>item_id = show_nat now, description = '''', quantity = 1,
                     rate = 0, amount = 0\<rparr>
      in items @ [newItem])"

text \<open>\<open>removeItem\<close> (lines 80--84).\<close>

definition removeItem :: "string \<Rightarrow> InvoiceItem list \<Rightarrow> InvoiceItem list" where
  "removeItem i items =
     (if length items > 1 then filter (\<lambda>item. item_id item \<noteq> i) items else items)"

text \<open>
  \<open>updateItem(id, field, value)\<close> (lines 86--97). The pair of a key of
  \<open>InvoiceItem\<close> and a value of that key's type is an \<open>edit\<close>; the three calls in the
  source (lines 337, 346, 355) edit the description, the quantity and the rate.
\<close>

datatype edit =
    SetId string
  | SetDescription string
  | SetQuantity rat
  | SetRate rat
  | SetAmount rat

fun assign :: "edit \<Rightarrow> InvoiceItem \<Rightarrow> InvoiceItem" where
  "assign (SetId v) item = item\<lparr>item_id := v\<rparr>"
| "assign (SetDescription v) item = item\<lparr>description := v\<rparr>"
| "assign (SetQuantity v) item = item\<lparr>quantity := v\<rparr>"
| "assign (SetRate v) item = item\<lparr>rate := v\<rparr>"
| "assign (SetAmount v) item = item\<lparr>amount := v\<rparr>"

fun quantity_or_rate :: "edit \<Rightarrow> bool" where
  "quantity_or_rate (SetQuantity v) = True"
| "quantity_or_rate (SetRate v) = True"
| "quantity_or_rate e = False"

definition updateItem :: "string \<Rightarrow> edit \<Rightarrow> InvoiceItem list \<Rightarrow> InvoiceItem list" where
  "updateItem i e items =
     map (\<lambda>item.
       if item_id item = i then
         (let updatedItem = assign e item
          in if quantity_or_rate e
             then updatedItem\<lparr>amount := quantity updatedItem * rate updatedItem\<rparr>
             else updatedItem)
       else item) items"

text \<open>
  \<open>handleExpenseItemsAdd\<close> (lines 103--112). The \<open>k\<close>-th expense reads the clock
  (\<open>clock k\<close>) and \<open>Math.random()\<close>, whose rendering as a string is \<open>random k\<close>.
\<close>

definition handleExpenseItemsAdd ::
  "(nat \<Rightarrow> nat) \<Rightarrow> (nat \<Rightarrow> string) \<Rightarrow> ExpenseItem list \<Rightarrow> InvoiceItem list \<Rightarrow> InvoiceItem list"
where
  "handleExpenseItemsAdd clock random expenseItems prev =
     (let newItems = map (\<lambda>(k, expense).
            \<lparr>item_id = show_nat (clock k) @ random k,
             description = expense_description expense,
             quantity = 1,
             rate = expense_amount expense,
             amount = expense_amount expense\<rparr>) (enumerate 0 expenseItems)
      in prev @ newItems)"

subsection \<open>Totals (lines 99--101)\<close>

definition subtotal :: "InvoiceItem list \<Rightarrow> rat" where
  "subtotal items = foldl (\<lambda>sum item. sum + amount item) 0 items"

definition tax :: "InvoiceItem list \<Rightarrow> rat" where
  "tax items = subtotal items * (8 / 100)"

definition invoice_total :: "InvoiceItem list \<Rightarrow> rat" where
  \<comment> \<open>\<open>total\<close> in the source\<close>
  "invoice_total items = subtotal items + tax items"

text \<open>
  Modelled from the spec: \<open>round2\<close>, the fixed 2-decimal rounding of an amount of money
  (section 4.1). The source has no such function; it formats with \<open>toFixed(2)\<close> where a
  value is shown.
\<close>

definition round2 :: "rat \<Rightarrow> rat" where
  "round2 x = of_int \<lfloor>x * 100 + 1 / 2\<rfloor> / 100"

subsection \<open>Theme fallbacks\<close>

text \<open>
  \<open>appliedTheme?.f || d\<close>: the optional chain gives \<open>undefined\<close> when no theme is
  applied, and \<open>||\<close> takes the default when its left operand is \<open>undefined\<close> or
  the empty string.
\<close>

definition or_default :: "string option \<Rightarrow> string \<Rightarrow> string" where
  "or_default v d = (case v of None \<Rightarrow> d | Some s \<Rightarrow> if s = '''' then d else s)"

text \<open>Line 132 (PDF title) and lines 417, 433, 481, 491 (preview).\<close>

definition primaryColor :: "BrandTheme option \<Rightarrow> string" where
  "primaryColor appliedTheme =
     or_default (map_option (\<lambda>t. primary (colors t)) appliedTheme) ''#2563eb''"

text \<open>Line 407: the text colour of the preview.\<close>

definition secondaryColor :: "BrandTheme option \<Rightarrow> string" where
  "secondaryColor appliedTheme =
     or_default (map_option (\<lambda>t. secondary (colors t)) appliedTheme) ''#1f2937''"

text \<open>Line 449: the border colour of the table header.\<close>

definition accentColor :: "BrandTheme option \<Rightarrow> string" where
  "accentColor appliedTheme =
     or_default (map_option (\<lambda>t. accent (colors t)) appliedTheme) ''#f59e0b''"

text \<open>Line 418: the font family of the preview's title.\<close>

definition headingFont :: "BrandTheme option \<Rightarrow> string" where
  "headingFont appliedTheme =
     or_default (map_option (\<lambda>t. heading (fonts t)) appliedTheme) ''inherit''"

text \<open>Line 408: the font family of the preview.\<close>

definition bodyFont :: "BrandTheme option \<Rightarrow> string" where
  "bodyFont appliedTheme =
     or_default (map_option (\<lambda>t. body (fonts t)) appliedTheme) ''inherit''"

subsection \<open>The PDF download (\<open>generatePDF\<close>, lines 128--187)\<close>

text \<open>The calls on a \<open>jsPDF\<close> document that the two components make, and \<open>addPage\<close>.\<close>

datatype pdf_call =
    SetFontSize rat
  | SetTextColor string
  | SetTextColorRGB nat nat nat
  | SetFillColor nat nat nat
  | Rect rat rat rat rat string
  | Text template rat rat
  | TextAligned template rat rat string
  | TextLines "string list" rat rat
  | AddPage
  | Save string

record toast =
  toast_title :: string
  toast_description :: string
  variant :: "string option"

record inv_state =
  invoiceNumber :: string
  invoiceDate :: string
  dueDate :: string
  clientInfo :: ClientInfo
  items :: "InvoiceItem list"
  "notes" :: string
  appliedTheme :: "BrandTheme option"

text \<open>\<open>if (s)\<close> on an optional string.\<close>

definition truthy :: "string option \<Rightarrow> bool" where
  "truthy v = (case v of None \<Rightarrow> False | Some s \<Rightarrow> s \<noteq> '''')"

text \<open>
  The body of \<open>items.forEach\<close> (lines 160--166), threading \<open>yPosition\<close> and the
  document.
\<close>

fun forEach_item :: "InvoiceItem list \<Rightarrow> rat \<times> pdf_call list \<Rightarrow> rat \<times> pdf_call list" where
  "forEach_item [] (yPosition, doc) = (yPosition, doc)"
| "forEach_item (item # rest) (yPosition, doc) =
     forEach_item rest
       (yPosition + 10,
        doc @ [Text [Lit (description item)] 20 yPosition,
               Text [Num (quantity item)] 120 yPosition,
               Text [Lit ''$'', Fixed (rate item)] 140 yPosition,
               Text [Lit ''$'', Fixed (amount item)] 170 yPosition])"

definition generatePDF :: "inv_state \<Rightarrow> pdf_call list \<times> toast" where
  "generatePDF st =
     (let doc = [SetFontSize 24,
                 SetTextColor (primaryColor (appliedTheme st)),
                 Text [Lit ''INVOICE''] 20 30,
                 SetFontSize 12,
                 SetTextColor ''#000000'',
                 Text [Lit (''Invoice #: '' @ invoiceNumber st)] 20 50,
                 Text [Lit (''Date: '' @ invoiceDate st)] 20 60,
                 Text [Lit (''Due Date: '' @ dueDate st)] 20 70,
                 Text [Lit ''Bill To:''] 120 50,
                 Text [Lit (name (clientInfo st))] 120 60];
          doc = doc @ (if truthy (company (clientInfo st))
                       then [Text [Lit (the (company (clientInfo st)))] 120 70] else []);
          doc = doc @ (if email (clientInfo st) \<noteq> ''''
                       then [Text [Lit (email (clientInfo st))] 120 80] else []);
          yPosition = 100;
          doc = doc @ [Text [Lit ''Description''] 20 yPosition,
                       Text [Lit ''Qty''] 120 yPosition,
                       Text [Lit ''Rate''] 140 yPosition,
                       Text [Lit ''Amount''] 170 yPosition];
          yPosition = yPosition + 10;
          (yPosition, doc) = forEach_item (items st) (yPosition, doc);
          yPosition = yPosition + 10;
          doc = doc @ [Text [Lit ''Subtotal: $'', Fixed (subtotal (items st))] 140 yPosition,
                       Text [Lit ''Tax: $'', Fixed (tax (items st))] 140 (yPosition + 10),
                       SetFontSize 14,
                       Text [Lit ''Total: $'', Fixed (invoice_total (items st))] 140 (yPosition + 20)];
          doc = doc @ (if notes st \<noteq> ''''
                       then [SetFontSize 10,
                             Text [Lit ''Notes:''] 20 (yPosition + 30),
                             Text [Lit (notes st)] 20 (yPosition + 40)]
                       else []);
          doc = doc @ [Save (''invoice-'' @ invoiceNumber st @ ''.pdf'')]
      in (doc,
          \<lparr>toast_title = ''PDF Generated!'',
           toast_description = ''Your invoice has been downloaded successfully.'',
           variant = None\<rparr>))"

text \<open>
  The height of the page of \<open>new jsPDF()\<close> in the unit of the coordinates: the library's
  default document is A4 portrait in millimetres.
\<close>

definition pageHeight :: rat where
  "pageHeight = 297"

definition saved_names :: "pdf_call list \<Rightarrow> string list" where
  "saved_names doc = concat (map (\<lambda>c. case c of Save n \<Rightarrow> [n] | _ \<Rightarrow> []) doc)"

text \<open>The events of the editor that change the item list, and the lists they reach.\<close>

datatype event =
    AddItem nat
  | RemoveItem string
  | UpdateItem string edit
  | ExpenseItemsAdd "nat \<Rightarrow> nat" "nat \<Rightarrow> string" "ExpenseItem list"

fun handle :: "event \<Rightarrow> InvoiceItem list \<Rightarrow> InvoiceItem list" where
  "handle (AddItem now) its = addItem now its"
| "handle (RemoveItem i) its = removeItem i its"
| "handle (UpdateItem i e) its = updateItem i e its"
| "handle (ExpenseItemsAdd clock random expenseItems) its =
     handleExpenseItemsAdd clock random expenseItems its"

definition run :: "event list \<Rightarrow> InvoiceItem list" where
  "run evs = foldl (\<lambda>its ev. handle ev its) initial_items evs"

section \<open>The hourly invoice form (\<open>part_001\<close>)\<close>

subsection \<open>Strings\<close>

text \<open>The white space of \<open>String.prototype.trim\<close> and of \<open>\s\<close> among the 8-bit characters.\<close>

definition is_space :: "char \<Rightarrow> bool" where
  "is_space c = (c \<in> set [CHR 0x09, CHR 0x0A, CHR 0x0B, CHR 0x0C, CHR 0x0D, CHR 0x20, CHR 0xA0])"

definition trim :: "string \<Rightarrow> string" where
  "trim s = rev (dropWhile is_space (rev (dropWhile is_space s)))"

text \<open>\<open>s.replace(/\s+/g, '-')\<close>: every maximal run of white space becomes one hyphen.\<close>

function replace_spaces :: "string \<Rightarrow> string" where
  "replace_spaces [] = []"
| "replace_spaces (c # cs) =
     (if is_space c then CHR ''-'' # replace_spaces (dropWhile is_space cs)
      else c # replace_spaces cs)"
  by pat_completeness auto
termination
  by (relation "measure length") (auto simp: length_dropWhile_le less_Suc_eq_le)

definition toLowerCase_char :: "char \<Rightarrow> char" where
  "toLowerCase_char c =
     (let n = (of_char c :: nat)
      in if (65 \<le> n \<and> n \<le> 90) \<or> (192 \<le> n \<and> n \<le> 214) \<or> (216 \<le> n \<and> n \<le> 222)
         then char_of (n + 32) else c)"

definition toLowerCase :: "string \<Rightarrow> string" where
  "toLowerCase s = map toLowerCase_char s"

subsection \<open>State\<close>

record InvoiceData =
  clientName :: string
  serviceDescription :: string
  totalHours :: rat
  hourlyRate :: rat
  userName :: string
  userEmail :: string

datatype log_entry =
    Log string          \<comment> \<open>\<open>console.log(s)\<close>\<close>
  | Error string string \<comment> \<open>\<open>console.error(s, error)\<close>, with the message of \<open>error\<close>\<close>

record attachment =
  filename :: string
  content :: "pdf_call list"
  mime_type :: string
  disposition :: string

record mail =
  mail_from :: string
  mail_to :: "string list"
  subject :: string
  html :: template
  attachments :: "attachment list"

text \<open>
  What the component can change: its three state cells, the toasts it shows, the
  console, and the requests it hands to \<open>window.ezsite.apis.sendEmail\<close>.
\<close>

record form_world =
  formData :: InvoiceData
  isGenerating :: bool
  isSending :: bool
  toasts :: "toast list"
  console :: "log_entry list"
  sent :: "mail list"

definition initial_formData :: InvoiceData where
  "initial_formData =
     \<lparr>clientName = '''', serviceDescription = '''', totalHours = 0, hourlyRate = 0,
      userName = '''', userEmail = ''''\<rparr>"

subsection \<open>\<open>validateForm\<close> (lines 41--91)\<close>

definition show_toast :: "toast \<Rightarrow> form_world \<Rightarrow> form_world" where
  "show_toast t w = w\<lparr>toasts := toasts w @ [t]\<rparr>"

definition validation_error :: "string \<Rightarrow> toast" where
  "validation_error d =
     \<lparr>toast_title = ''Validation Error'', toast_description = d,
      variant = Some ''destructive''\<rparr>"

definition validateForm :: "form_world \<Rightarrow> bool \<times> form_world" where
  "validateForm w =
     (if trim (clientName (formData w)) = '''' then
        (False, show_toast (validation_error ''Please enter the client's name'') w)
      else if trim (serviceDescription (formData w)) = '''' then
        (False, show_toast (validation_error ''Please enter a service description'') w)
      else if totalHours (formData w) \<le> 0 then
        (False, show_toast (validation_error ''Please enter valid total hours'') w)
      else if hourlyRate (formData w) \<le> 0 then
        (False, show_toast (validation_error ''Please enter a valid hourly rate'') w)
      else if trim (userName (formData w)) = '''' then
        (False, show_toast (validation_error ''Please enter your name'') w)
      else if trim (userEmail (formData w)) = '''' \<or> CHR ''@'' \<notin> set (userEmail (formData w)) then
        (False, show_toast (validation_error ''Please enter a valid email address'') w)
      else (True, w))"

subsection \<open>\<open>generatePDF\<close> of the form (lines 93--163)\<close>

text \<open>
  What the component takes from the \<open>jsPDF\<close> library: the page width
  (\<open>doc.internal.pageSize.width\<close>) and \<open>doc.splitTextToSize\<close>.
\<close>

record backend =
  pageWidth :: rat
  splitTextToSize :: "string \<Rightarrow> rat \<Rightarrow> string list"

text \<open>
  \<open>today\<close> is the reading \<open>new Date().toLocaleDateString()\<close> of line 106, \<open>now\<close> the
  reading \<open>Date.now()\<close> of line 107. The result stands for the data URI of
  \<open>doc.output('datauristring')\<close>: the document, as the list of the calls that drew it.
\<close>

definition generatePDF_form :: "backend \<Rightarrow> string \<Rightarrow> nat \<Rightarrow> InvoiceData \<Rightarrow> pdf_call list" where
  "generatePDF_form be today now fd =
     (let total = totalHours fd * hourlyRate fd;
          tableStartY = 200
      in [SetFontSize 24,
          SetTextColorRGB 59 130 246,
          TextAligned [Lit ''INVOICE''] (pageWidth be / 2) 30 ''center'',
          SetFontSize 12,
          SetTextColorRGB 0 0 0,
          Text [Lit (''Invoice Date: '' @ today)] 20 50,
          Text [Lit (''Invoice #: INV-'' @ show_nat now)] 20 60,
          SetFontSize 14,
          SetTextColorRGB 59 130 246,
          Text [Lit ''From:''] 20 80,
          SetFontSize 12,
          SetTextColorRGB 0 0 0,
          Text [Lit (userName fd)] 20 90,
          Text [Lit (userEmail fd)] 20 100,
          SetFontSize 14,
          SetTextColorRGB 59 130 246,
          Text [Lit ''To:''] 20 120,
          SetFontSize 12,
          SetTextColorRGB 0 0 0,
          Text [Lit (clientName fd)] 20 130,
          SetFontSize 14,
          SetTextColorRGB 59 130 246,
          Text [Lit ''Service Description:''] 20 160,
          SetFontSize 12,
          SetTextColorRGB 0 0 0,
          TextLines (splitTextToSize be (serviceDescription fd) (pageWidth be - 40)) 20 170,
          SetFontSize 12,
          SetFillColor 59 130 246,
          Rect 20 tableStartY (pageWidth be - 40) 10 ''F'',
          SetTextColorRGB 255 255 255,
          Text [Lit ''Description''] 25 (tableStartY + 7),
          Text [Lit ''Hours''] 100 (tableStartY + 7),
          Text [Lit ''Rate''] 130 (tableStartY + 7),
          Text [Lit ''Total''] 160 (tableStartY + 7),
          SetTextColorRGB 0 0 0,
          Text [Lit ''Professional Services''] 25 (tableStartY + 20),
          Text [Num (totalHours fd)] 100 (tableStartY + 20),
          Text [Lit ''$'', Fixed (hourlyRate fd)] 130 (tableStartY + 20),
          Text [Lit ''$'', Fixed total] 160 (tableStartY + 20),
          SetFontSize 14,
          SetTextColorRGB 59 130 246,
          TextAligned [Lit ''Total Amount: $'', Fixed total] (pageWidth be - 80) (tableStartY + 40) ''right'',
          SetFontSize 10,
          SetTextColorRGB 128 128 128,
          TextAligned [Lit ''Thank you for your business!''] (pageWidth be / 2) 270 ''center''])"

subsection \<open>\<open>handleGenerateAndSend\<close> (lines 165--237)\<close>

text \<open>
  The four readings of the clock in one run: lines 106, 107, 180 and 199.
\<close>

record clock_readings =
  pdf_date :: string
  pdf_now :: nat
  subject_date :: string
  attachment_now :: nat

text \<open>
  The answer of \<open>await window.ezsite.apis.sendEmail(...)\<close>: the promise is fulfilled with
  an object whose \<open>error\<close> field is read, or it is rejected.
\<close>

datatype send_result =
    Fulfilled "string option"
  | Rejected string

text \<open>The argument of \<open>sendEmail\<close> (lines 177--204); the markup of \<open>html\<close> is on one line.\<close>

definition request :: "clock_readings \<Rightarrow> InvoiceData \<Rightarrow> pdf_call list \<Rightarrow> mail" where
  \<open>request clk fd pdfBase64 =
     \<lparr>mail_from = ''support@ezsite.ai'',
      mail_to = [userEmail fd],
      subject = ''Invoice for '' @ clientName fd @ '' - '' @ subject_date clk,
      html =
        [Lit ''<div style="font-family: Arial, sans-serif; max-width: 600px; margin: 0 auto;">'',
         Lit ''<h2 style="color: #3b82f6;">Your Invoice is Ready!</h2>'',
         Lit ''<p>Dear '', Lit (userName fd), Lit '',</p>'',
         Lit ''<p>Your professional invoice has been generated successfully. Please find the PDF invoice attached to this email.</p>'',
         Lit ''<div style="background-color: #f3f4f6; padding: 20px; border-radius: 8px; margin: 20px 0;">'',
         Lit ''<h3 style="margin-top: 0;">Invoice Summary:</h3>'',
         Lit ''<p><strong>Client:</strong> '', Lit (clientName fd), Lit ''</p>'',
         Lit ''<p><strong>Service:</strong> '', Lit (serviceDescription fd), Lit ''</p>'',
         Lit ''<p><strong>Hours:</strong> '', Num (totalHours fd), Lit ''</p>'',
         Lit ''<p><strong>Rate:</strong> $'', Fixed (hourlyRate fd), Lit ''/hour</p>'',
         Lit ''<p><strong>Total:</strong> $'', Fixed (totalHours fd * hourlyRate fd), Lit ''</p>'',
         Lit ''</div>'',
         Lit ''<p>Thank you for using our invoice generator!</p>'',
         Lit ''<p>Best regards,<br>The Invoice Generator Team</p>'',
         Lit ''</div>''],
      attachments =
        [\<lparr>filename = ''invoice-'' @ toLowerCase (replace_spaces (clientName fd)) @ ''-''
                      @ show_nat (attachment_now clk) @ ''.pdf'',
          content = pdfBase64,
          mime_type = ''application/pdf'',
          disposition = ''attachment''\<rparr>]\<rparr>\<close>

definition success_toast :: toast where
  "success_toast =
     \<lparr>toast_title = ''Success!'',
      toast_description = ''Your invoice has been generated and sent to your email.'',
      variant = Some ''default''\<rparr>"

definition failure_toast :: toast where
  "failure_toast =
     \<lparr>toast_title = ''Error'',
      toast_description = ''Failed to generate or send the invoice. Please try again.'',
      variant = Some ''destructive''\<rparr>"

definition console_add :: "log_entry \<Rightarrow> form_world \<Rightarrow> form_world" where
  "console_add l w = w\<lparr>console := console w @ [l]\<rparr>"

text \<open>
  The \<open>try\<close> block (lines 172--224). \<open>Inl (e, w)\<close>: an exception with message \<open>e\<close> is
  thrown in the world \<open>w\<close>; \<open>Inr w\<close>: the block ends in \<open>w\<close>.
\<close>

definition try_block ::
  "backend \<Rightarrow> (mail \<Rightarrow> send_result) \<Rightarrow> clock_readings \<Rightarrow> form_world \<Rightarrow> (string \<times> form_world) + form_world"
where
  "try_block be sendEmail clk w =
     (let w = console_add (Log ''Generating PDF invoice...'') w;
          pdfData = generatePDF_form be (pdf_date clk) (pdf_now clk) (formData w);
          pdfBase64 = pdfData;
          w = console_add (Log ''Sending email with invoice...'') w;
          req = request clk (formData w) pdfBase64;
          w = w\<lparr>sent := sent w @ [req]\<rparr>
      in case sendEmail req of
           Rejected e \<Rightarrow> Inl (e, w)
         | Fulfilled error \<Rightarrow>
             if truthy error then Inl (the error, w)
             else Inr ((show_toast success_toast w)\<lparr>formData := initial_formData\<rparr>))"

text \<open>The \<open>catch\<close> block (lines 226--232).\<close>

definition catch_block :: "string \<Rightarrow> form_world \<Rightarrow> form_world" where
  "catch_block error w =
     show_toast failure_toast
       (console_add (Error ''Error generating or sending invoice:'' error) w)"

text \<open>
  The handler. \<open>Inl e\<close>: its promise is rejected with \<open>e\<close>, which is how its caller
  would see an error; \<open>Inr w\<close>: it is fulfilled and leaves the world \<open>w\<close>.
\<close>

definition handleGenerateAndSend ::
  "backend \<Rightarrow> (mail \<Rightarrow> send_result) \<Rightarrow> clock_readings \<Rightarrow> form_world \<Rightarrow> string + form_world"
where
  "handleGenerateAndSend be sendEmail clk w =
     (case validateForm w of
        (False, w) \<Rightarrow> Inr w
      | (True, w) \<Rightarrow>
          (let w = w\<lparr>isGenerating := True, isSending := True\<rparr>;
               w = (case try_block be sendEmail clk w of
                      Inr w \<Rightarrow> w
                    | Inl (error, w) \<Rightarrow> catch_block error w)
           in Inr (w\<lparr>isGenerating := False, isSending := False\<rparr>)))"

section \<open>Word wrap\<close>

text \<open>
  Modelled from the spec: the greedy word wrap of the text layout engine (section 4.3).
  The repository has no wrapping code of its own: the form calls \<open>doc.splitTextToSize\<close>
  of the \<open>jsPDF\<close> library, and the editor does not wrap. \<open>width\<close> is the injected
  measure of a line of text.
\<close>







section \<open>Closed forms and sample inputs\<close>

subsection \<open>The rows of the item table\<close>

text \<open>The four calls of one pass of the loop of lines 160--166, at height \<open>y\<close>.\<close>

definition item_row :: "InvoiceItem \<Rightarrow> rat \<Rightarrow> pdf_call list" where
  "item_row item y =
     [Text [Lit (description item)] 20 y,
      Text [Num (quantity item)] 120 y,
      Text [Lit ''$'', Fixed (rate item)] 140 y,
      Text [Lit ''$'', Fixed (amount item)] 170 y]"

fun item_rows :: "InvoiceItem list \<Rightarrow> rat \<Rightarrow> pdf_call list" where
  "item_rows [] y = []"
| "item_rows (item # its) y = item_row item y @ item_rows its (y + 10)"

subsection \<open>Predicates of the statements\<close>

text \<open>A string that \<open>trim\<close> empties: it has white space only.\<close>

definition blank :: "string \<Rightarrow> bool" where
  "blank s = list_all is_space s"

text \<open>The request of one run of \<open>handleGenerateAndSend\<close>, with the document it attaches.\<close>

definition the_request :: "backend \<Rightarrow> clock_readings \<Rightarrow> InvoiceData \<Rightarrow> mail" where
  "the_request be clk fd = request clk fd (generatePDF_form be (pdf_date clk) (pdf_now clk) fd)"



subsection \<open>Sample inputs\<close>

definition design :: "InvoiceItem list" where
  "design = [\<lparr>item_id = ''1'', description = ''Logo design'', quantity = 2, rate = 50, amount = 100\<rparr>]"

definition hosting :: "InvoiceItem list" where
  "hosting = [\<lparr>item_id = ''1'', description = ''Hosting'', quantity = 1, rate = 1 / 10, amount = 1 / 10\<rparr>]"

definition consulting :: InvoiceItem where
  "consulting = \<lparr>item_id = ''1'', description = ''Consulting'', quantity = 1, rate = 100, amount = 100\<rparr>"

definition sample_invoice :: inv_state where
  "sample_invoice =
     \<lparr>invoiceNumber = ''INV-001'', invoiceDate = ''2026-11-02'', dueDate = '''',
      clientInfo = \<lparr>name = ''Acme Ltd'', email = '''', company = Some '''', address = Some '''',
                    phone = Some ''''\<rparr>,
      items = design, notes = '''', appliedTheme = None\<rparr>"

definition long_invoice :: inv_state where
  "long_invoice = sample_invoice\<lparr>items := replicate 30 consulting\<rparr>"

definition unnumbered :: inv_state where
  "unnumbered = sample_invoice\<lparr>invoiceNumber := ''''\<rparr>"



definition only_primary :: BrandTheme where
  "only_primary =
     \<lparr>theme_id = ''9'', theme_name = ''Red'',
      colors = \<lparr>primary = ''#ff0000'', secondary = '''', accent = ''''\<rparr>,
      fonts = \<lparr>heading = '''', body = ''''\<rparr>\<rparr>"

definition one_line :: "string \<Rightarrow> rat \<Rightarrow> string list" where
  "one_line s w = [s]"

definition a4 :: backend where
  "a4 = \<lparr>pageWidth = 210, splitTextToSize = one_line\<rparr>"

definition filled_form :: form_world where
  "filled_form =
     \<lparr>formData = \<lparr>clientName = ''Acme Ltd'', serviceDescription = ''Logo design'',
                  totalHours = 2, hourlyRate = 50, userName = ''Dana'',
                  userEmail = ''dana@example.com''\<rparr>,
      isGenerating = False, isSending = False, toasts = [], console = [], sent = []\<rparr>"

definition spaced_name :: form_world where
  "spaced_name = filled_form\<lparr>formData := (formData filled_form)\<lparr>clientName := '' ''\<rparr>\<rparr>"

definition mailbox_full :: "mail \<Rightarrow> send_result" where
  "mailbox_full req = Fulfilled (Some ''Mailbox unavailable'')"

definition first_click :: clock_readings where
  "first_click = \<lparr>pdf_date = ''11/2/2026'', pdf_now = 1000, subject_date = ''11/2/2026'',
                   attachment_now = 1001\<rparr>"

definition second_click :: clock_readings where
  "second_click = \<lparr>pdf_date = ''11/2/2026'', pdf_now = 9000, subject_date = ''11/2/2026'',
                    attachment_now = 9001\<rparr>"

section \<open>Lemmas\<close>

subsection \<open>Totals\<close>

lemma foldl_amount:
  "foldl (\<lambda>sum item. sum + amount item) a its = a + sum_list (map amount its)"
  by (induction its arbitrary: a) simp_all

lemma subtotal_sum: "subtotal its = sum_list (map amount its)"
  by (simp add: subtotal_def foldl_amount)

subsection \<open>The document of the editor in closed form\<close>

lemma forEach_item_eq:
  "forEach_item its (y, doc) = (y + 10 * of_nat (length its), doc @ item_rows its y)"
proof (induction its arbitrary: y doc)
  case Nil
  show ?case by simp
next
  case (Cons item its)
  show ?case
    by (simp add: Cons.IH item_row_def algebra_simps)
qed

lemma item_rows_nth:
  "k < length its \<Longrightarrow> set (item_row (its ! k) (y + 10 * of_nat k)) \<subseteq> set (item_rows its y)"
proof (induction its arbitrary: y k)
  case Nil
  then show ?case by simp
next
  case (Cons item its)
  show ?case
  proof (cases k)
    case 0
    then show ?thesis by simp
  next
    case (Suc j)
    with Cons.prems have "j < length its" by simp
    from Cons.IH [OF this, of "y + 10"] Suc show ?thesis
      by (auto simp add: algebra_simps)
  qed
qed

lemma generatePDF_doc:
  "fst (generatePDF st) =
     [SetFontSize 24,
      SetTextColor (primaryColor (appliedTheme st)),
      Text [Lit ''INVOICE''] 20 30,
      SetFontSize 12,
      SetTextColor ''#000000'',
      Text [Lit (''Invoice #: '' @ invoiceNumber st)] 20 50,
      Text [Lit (''Date: '' @ invoiceDate st)] 20 60,
      Text [Lit (''Due Date: '' @ dueDate st)] 20 70,
      Text [Lit ''Bill To:''] 120 50,
      Text [Lit (name (clientInfo st))] 120 60]
     @ (if truthy (company (clientInfo st))
        then [Text [Lit (the (company (clientInfo st)))] 120 70] else [])
     @ (if email (clientInfo st) \<noteq> ''''
        then [Text [Lit (email (clientInfo st))] 120 80] else [])
     @ [Text [Lit ''Description''] 20 100,
        Text [Lit ''Qty''] 120 100,
        Text [Lit ''Rate''] 140 100,
        Text [Lit ''Amount''] 170 100]
     @ item_rows (items st) 110
     @ [Text [Lit ''Subtotal: $'', Fixed (subtotal (items st))] 140 (120 + 10 * of_nat (length (items st))),
        Text [Lit ''Tax: $'', Fixed (tax (items st))] 140 (130 + 10 * of_nat (length (items st))),
        SetFontSize 14,
        Text [Lit ''Total: $'', Fixed (invoice_total (items st))] 140 (140 + 10 * of_nat (length (items st)))]
     @ (if notes st \<noteq> ''''
        then [SetFontSize 10,
              Text [Lit ''Notes:''] 20 (150 + 10 * of_nat (length (items st))),
              Text [Lit (notes st)] 20 (160 + 10 * of_nat (length (items st)))]
        else [])
     @ [Save (''invoice-'' @ invoiceNumber st @ ''.pdf'')]"
  by (simp add: generatePDF_def forEach_item_eq Let_def algebra_simps)

lemma AddPage_item_rows: "AddPage \<notin> set (item_rows its y)"
  by (induction its arbitrary: y) (simp_all add: item_row_def)

lemma generatePDF_no_AddPage: "AddPage \<notin> set (fst (generatePDF st))"
  by (simp add: generatePDF_doc AddPage_item_rows)

lemma generatePDF_row:
  assumes "k < length (items st)"
  shows "set (item_row (items st ! k) (110 + 10 * of_nat k)) \<subseteq> set (fst (generatePDF st))"
  using item_rows_nth [OF assms, of 110] by (auto simp add: generatePDF_doc)

lemma generatePDF_description:
  assumes "k < length (items st)"
  shows "Text [Lit (description (items st ! k))] 20 (110 + 10 * of_nat k) \<in> set (fst (generatePDF st))"
  using generatePDF_row [OF assms] by (simp add: item_row_def)

lemma generatePDF_header: "Text [Lit ''Description''] 20 100 \<in> set (fst (generatePDF st))"
  by (simp add: generatePDF_doc)

lemma generatePDF_totals:
  "Text [Lit ''Subtotal: $'', Fixed (subtotal (items st))] 140 (120 + 10 * of_nat (length (items st)))
     \<in> set (fst (generatePDF st))
   \<and> Text [Lit ''Tax: $'', Fixed (tax (items st))] 140 (130 + 10 * of_nat (length (items st)))
     \<in> set (fst (generatePDF st))
   \<and> Text [Lit ''Total: $'', Fixed (invoice_total (items st))] 140 (140 + 10 * of_nat (length (items st)))
     \<in> set (fst (generatePDF st))"
  by (simp add: generatePDF_doc)


lemma count_header_rows:
  "100 < y \<Longrightarrow> count_list (item_rows its y) (Text [Lit ''Description''] 20 100) = 0"
proof (induction its arbitrary: y)
  case Nil
  show ?case by simp
next
  case (Cons item its)
  from Cons.prems have "100 < y + 10" by simp
  from Cons.IH [OF this] Cons.prems show ?case
    by (simp add: item_row_def)
qed

lemma generatePDF_header_once:
  "count_list (fst (generatePDF st)) (Text [Lit ''Description''] 20 100) = 1"
proof -
  have "(160::rat) + 10 * of_nat (length (items st)) \<noteq> 100"
    using of_nat_0_le_iff [of "length (items st)", where ?'a = rat] by linarith
  then show ?thesis
    by (simp add: generatePDF_doc count_header_rows)
qed

lemma saved_names_append: "saved_names (xs @ ys) = saved_names xs @ saved_names ys"
  by (simp add: saved_names_def)

lemma saved_names_Nil: "saved_names [] = []"
  by (simp add: saved_names_def)

lemma saved_names_Cons:
  "saved_names (c # cs) = (case c of Save n \<Rightarrow> [n] | _ \<Rightarrow> []) @ saved_names cs"
  by (simp add: saved_names_def)

lemma saved_names_item_rows: "saved_names (item_rows its y) = []"
  by (induction its arbitrary: y)
     (simp_all add: saved_names_append saved_names_Nil saved_names_Cons item_row_def)

lemma generatePDF_saved_names:
  "saved_names (fst (generatePDF st)) = [''invoice-'' @ invoiceNumber st @ ''.pdf'']"
  by (simp add: generatePDF_doc saved_names_append saved_names_Nil saved_names_Cons
        saved_names_item_rows)

lemma item_rows_ids: "item_rows (map (\<lambda>item. item\<lparr>item_id := f item\<rparr>) its) y = item_rows its y"
  by (induction its arbitrary: y) (simp_all add: item_row_def)

lemma subtotal_ids: "subtotal (map (\<lambda>item. item\<lparr>item_id := f item\<rparr>) its) = subtotal its"
  by (simp add: subtotal_def foldl_map)

lemma generatePDF_ids:
  "generatePDF (st\<lparr>items := map (\<lambda>item. item\<lparr>item_id := f item\<rparr>) (items st)\<rparr>) = generatePDF st"
proof -
  have "fst (generatePDF (st\<lparr>items := map (\<lambda>item. item\<lparr>item_id := f item\<rparr>) (items st)\<rparr>))
        = fst (generatePDF st)"
    by (simp add: generatePDF_doc item_rows_ids subtotal_ids tax_def invoice_total_def)
  moreover have "snd (generatePDF (st\<lparr>items := map (\<lambda>item. item\<lparr>item_id := f item\<rparr>) (items st)\<rparr>))
        = snd (generatePDF st)"
    by (simp add: generatePDF_def Let_def split: prod.splits)
  ultimately show ?thesis
    by (simp add: prod_eq_iff)
qed

subsection \<open>The item list\<close>

lemma updateItem_nth:
  assumes "k < length its" and "item_id (its ! k) = i"
  shows "updateItem i (SetQuantity q) its ! k = (its ! k)\<lparr>quantity := q, amount := q * rate (its ! k)\<rparr>"
    and "updateItem i (SetRate r) its ! k = (its ! k)\<lparr>rate := r, amount := quantity (its ! k) * r\<rparr>"
  using assms by (simp_all add: updateItem_def)

lemma updateItem_fresh:
  assumes "quantity_or_rate e" and "item \<in> set (updateItem i e its)" and "item_id item = i"
  shows "amount item = quantity item * rate item"
proof -
  from assms(2) obtain old
    where item: "item = (if item_id old = i
                         then (let updatedItem = assign e old
                               in if quantity_or_rate e
                                  then updatedItem\<lparr>amount := quantity updatedItem * rate updatedItem\<rparr>
                                  else updatedItem)
                         else old)"
    unfolding updateItem_def set_map by blast
  show ?thesis
  proof (cases "item_id old = i")
    case True
    with item assms(1) show ?thesis
      by (simp add: Let_def)
  next
    case False
    with item have "item = old" by simp
    with False assms(3) show ?thesis by simp
  qed
qed

lemma length_updateItem: "length (updateItem i e its) = length its"
  by (simp add: updateItem_def)

lemma removeItem_distinct:
  assumes "its \<noteq> []" and "distinct (map item_id its)"
  shows "removeItem i its \<noteq> []"
proof (cases "length its > 1")
  case False
  with assms(1) show ?thesis by (simp add: removeItem_def)
next
  case True
  then obtain a b rest where its: "its = a # b # rest"
    by (cases its; cases "tl its") auto
  with assms(2) have "item_id a \<noteq> item_id b" by simp
  then have "item_id a \<noteq> i \<or> item_id b \<noteq> i" by auto
  then have "filter (\<lambda>item. item_id item \<noteq> i) its \<noteq> []"
    unfolding its by auto
  with True show ?thesis by (simp add: removeItem_def)
qed

lemma length_addItem: "length (addItem now its) = Suc (length its)"
  by (simp add: addItem_def)

lemma addItem_prefix: "take (length its) (addItem now its) = its"
  by (simp add: addItem_def)

lemma handleExpenseItemsAdd_prefix:
  "take (length its) (handleExpenseItemsAdd clock random expenseItems its) = its
   \<and> length (handleExpenseItemsAdd clock random expenseItems its) = length its + length expenseItems"
  by (simp add: handleExpenseItemsAdd_def)

lemma removeItem_single: "length its \<le> 1 \<Longrightarrow> removeItem i its = its"
  by (simp add: removeItem_def)

lemma filter_distinct_id:
  "distinct (map item_id its) \<Longrightarrow>
     length (filter (\<lambda>item. item_id item \<noteq> i) its)
       = length its - (if i \<in> item_id ` set its then 1 else 0)"
proof (induction its)
  case Nil
  show ?case by simp
next
  case (Cons a its)
  then have d: "distinct (map item_id its)" and a: "item_id a \<notin> item_id ` set its"
    by simp_all
  show ?case
  proof (cases "item_id a = i")
    case True
    with a have "i \<notin> item_id ` set its" by simp
    with Cons.IH [OF d] True show ?thesis by simp
  next
    case False
    have "i \<in> item_id ` set its \<Longrightarrow> 0 < length its"
      by auto
    with Cons.IH [OF d] False show ?thesis
      by (auto simp add: Suc_diff_le)
  qed
qed

lemma removeItem_one:
  assumes "distinct (map item_id its)" and "1 < length its" and "i \<in> item_id ` set its"
  shows "length (removeItem i its) = length its - 1"
  using assms filter_distinct_id [of its i] by (simp add: removeItem_def)

subsection \<open>The form\<close>

lemma trim_empty_iff: "trim s = [] \<longleftrightarrow> blank s"
proof
  assume "trim s = []"
  then have all: "\<forall>c \<in> set (dropWhile is_space s). is_space c"
    by (simp add: trim_def dropWhile_eq_Nil_conv)
  have "dropWhile is_space s = []"
  proof (rule ccontr)
    assume ne: "dropWhile is_space s \<noteq> []"
    then have "\<not> is_space (hd (dropWhile is_space s))"
      by (rule hd_dropWhile)
    moreover from ne have "hd (dropWhile is_space s) \<in> set (dropWhile is_space s)"
      by simp
    ultimately show False using all by blast
  qed
  then show "blank s"
    by (simp add: blank_def dropWhile_eq_Nil_conv list_all_iff)
next
  assume "blank s"
  then have nil: "dropWhile is_space s = []"
    by (simp add: blank_def dropWhile_eq_Nil_conv list_all_iff)
  show "trim s = []"
    unfolding trim_def nil by simp
qed

lemma at_not_space: "\<not> is_space CHR ''@''"
  by (simp add: is_space_def)

lemma blank_no_at: "blank s \<Longrightarrow> CHR ''@'' \<notin> set s"
  using at_not_space by (auto simp add: blank_def list_all_iff)

lemma validateForm_iff:
  "fst (validateForm w) \<longleftrightarrow>
     \<not> blank (clientName (formData w)) \<and> \<not> blank (serviceDescription (formData w))
     \<and> 0 < totalHours (formData w) \<and> 0 < hourlyRate (formData w)
     \<and> \<not> blank (userName (formData w)) \<and> CHR ''@'' \<in> set (userEmail (formData w))"
  using blank_no_at [of "userEmail (formData w)"]
  by (auto simp add: validateForm_def trim_empty_iff not_le)

lemma validateForm_formData:
  "formData w' = formData w \<Longrightarrow> fst (validateForm w') = fst (validateForm w)"
  by (simp add: validateForm_iff)

lemma validateForm_True: "fst (validateForm w) \<Longrightarrow> validateForm w = (True, w)"
  by (simp add: validateForm_def split: if_splits)

lemma validateForm_False:
  "\<not> fst (validateForm w) \<Longrightarrow>
     \<exists>d. validateForm w = (False, w\<lparr>toasts := toasts w @ [validation_error d]\<rparr>)"
  by (auto simp add: validateForm_def show_toast_def split: if_splits)

lemma handle_invalid:
  assumes "\<not> fst (validateForm w)"
  shows "\<exists>d. handleGenerateAndSend be sendEmail clk w
              = Inr (w\<lparr>toasts := toasts w @ [validation_error d]\<rparr>)"
proof -
  from validateForm_False [OF assms] obtain d
    where "validateForm w = (False, w\<lparr>toasts := toasts w @ [validation_error d]\<rparr>)" ..
  then have "handleGenerateAndSend be sendEmail clk w
              = Inr (w\<lparr>toasts := toasts w @ [validation_error d]\<rparr>)"
    by (simp add: handleGenerateAndSend_def)
  then show ?thesis ..
qed

lemma handle_failure:
  assumes valid: "fst (validateForm w)"
    and fail: "sendEmail (the_request be clk (formData w)) = Rejected e
               \<or> sendEmail (the_request be clk (formData w)) = Fulfilled (Some e) \<and> e \<noteq> ''''"
  shows "handleGenerateAndSend be sendEmail clk w =
           Inr (w\<lparr>isGenerating := False, isSending := False,
                  toasts := toasts w @ [failure_toast],
                  console := console w @ [Log ''Generating PDF invoice...'',
                                          Log ''Sending email with invoice...'',
                                          Error ''Error generating or sending invoice:'' e],
                  sent := sent w @ [the_request be clk (formData w)]\<rparr>)"
  using fail
  by (auto simp add: handleGenerateAndSend_def validateForm_True [OF valid] try_block_def
        catch_block_def console_add_def show_toast_def the_request_def truthy_def Let_def)

lemma handle_success:
  assumes valid: "fst (validateForm w)"
    and ok: "sendEmail (the_request be clk (formData w)) = Fulfilled error" "\<not> truthy error"
  shows "handleGenerateAndSend be sendEmail clk w =
           Inr (w\<lparr>formData := initial_formData, isGenerating := False, isSending := False,
                  toasts := toasts w @ [success_toast],
                  console := console w @ [Log ''Generating PDF invoice...'',
                                          Log ''Sending email with invoice...''],
                  sent := sent w @ [the_request be clk (formData w)]\<rparr>)"
  using ok
  by (auto simp add: handleGenerateAndSend_def validateForm_True [OF valid] try_block_def
        console_add_def show_toast_def the_request_def Let_def)

lemma handle_fulfilled: "\<not> isl (handleGenerateAndSend be sendEmail clk w)"
  by (simp add: handleGenerateAndSend_def Let_def split: prod.splits bool.splits)

lemma handle_sent:
  assumes valid: "fst (validateForm w)"
  shows "sent (projr (handleGenerateAndSend be sendEmail clk w))
           = sent w @ [the_request be clk (formData w)]"
proof (cases "sendEmail (the_request be clk (formData w))")
  case (Rejected e)
  then show ?thesis
    using handle_failure [OF valid, of sendEmail be clk e] by simp
next
  case (Fulfilled error)
  show ?thesis
  proof (cases "truthy error")
    case True
    then obtain e where "error = Some e" "e \<noteq> ''''"
      by (auto simp add: truthy_def split: option.splits)
    with Fulfilled show ?thesis
      using handle_failure [OF valid, of sendEmail be clk e] by simp
  next
    case False
    with Fulfilled show ?thesis
      using handle_success [OF valid, of sendEmail be clk error] by simp
  qed
qed

lemma filled_form_valid: "fst (validateForm filled_form)"
  by (simp add: validateForm_def filled_form_def trim_def is_space_def)

lemma request_filename:
  "map filename (attachments (the_request be clk fd))
     = [''invoice-'' @ toLowerCase (replace_spaces (clientName fd)) @ ''-''
        @ show_nat (attachment_now clk) @ ''.pdf'']"
  by (simp add: the_request_def request_def)

subsection \<open>Word wrap\<close>













section \<open>The claims\<close>

subsection \<open>C1: totals\<close>

text \<open>
  C1, as stated, asks for \<open>tax = round2 (subtotal * 0.08)\<close>. The code multiplies and does
  not round: for one item of amount 0.10 the tax is 0.008, and rounding it to two
  decimals would give 0.01.
\<close>

theorem tax_is_not_round2:
  "tax hosting = 1 / 125
   \<and> round2 (subtotal hosting * (8 / 100)) = 1 / 100
   \<and> tax hosting \<noteq> round2 (subtotal hosting * (8 / 100))"
  by code_simp

text \<open>
  C1, amended. For every list of line items the subtotal is the sum of the items'
  amounts, the tax is the subtotal times 0.08 with no rounding, and the total is the
  subtotal plus the tax. Two-decimal formatting (\<open>toFixed(2)\<close>) is applied only where
  a value is shown: the PDF prints the unrounded subtotal, tax and total through it.
\<close>

theorem totals_unrounded:
  "subtotal its = sum_list (map amount its)
   \<and> tax its = subtotal its * (8 / 100)
   \<and> invoice_total its = subtotal its + tax its
   \<and> Text [Lit ''Subtotal: $'', Fixed (subtotal (items st))] 140 (120 + 10 * of_nat (length (items st)))
        \<in> set (fst (generatePDF st))
   \<and> Text [Lit ''Tax: $'', Fixed (tax (items st))] 140 (130 + 10 * of_nat (length (items st)))
        \<in> set (fst (generatePDF st))
   \<and> Text [Lit ''Total: $'', Fixed (invoice_total (items st))] 140 (140 + 10 * of_nat (length (items st)))
        \<in> set (fst (generatePDF st))"
  using generatePDF_totals [of st]
  by (simp add: subtotal_sum tax_def invoice_total_def)

theorem totals_unrounded_witness:
  "subtotal design = 100 \<and> tax design = 8 \<and> invoice_total design = 108
   \<and> Text [Lit ''Tax: $'', Fixed 8] 140 140 \<in> set (fst (generatePDF sample_invoice))"
  using totals_unrounded [of design sample_invoice]
  by (simp add: design_def sample_invoice_def subtotal_def tax_def invoice_total_def)

subsection \<open>C2: pagination\<close>

text \<open>
  C2, as stated, has a new page opened, with the header row repeated, before a row that
  would pass the bottom of the page. The code never adds a page: with thirty items the
  last row is drawn at height 400 of a page that is 297 high, on the only page.
\<close>

theorem long_invoice_stays_on_one_page:
  "length (items long_invoice) = 30
   \<and> AddPage \<notin> set (fst (generatePDF long_invoice))
   \<and> Text [Lit ''Consulting''] 20 400 \<in> set (fst (generatePDF long_invoice))
   \<and> pageHeight < 400"
proof -
  have len: "length (items long_invoice) = 30"
    by (simp add: long_invoice_def)
  then have "29 < length (items long_invoice)"
    by simp
  from generatePDF_description [OF this]
  have "Text [Lit ''Consulting''] 20 400 \<in> set (fst (generatePDF long_invoice))"
    by (simp add: long_invoice_def consulting_def)
  with len generatePDF_no_AddPage [of long_invoice] show ?thesis
    by (simp add: pageHeight_def)
qed

text \<open>
  C2, amended. The layout of the editor's PDF has a single page and no check against
  the height of the page: no page is ever added, the header row of the table is drawn
  once at height 100, the row of the \<open>k\<close>-th item (from 0) at height \<open>110 + 10 k\<close>
  whatever the number of items, and the total at height \<open>140 + 10 n\<close> for \<open>n\<close> items.
\<close>

theorem single_page_layout:
  "AddPage \<notin> set (fst (generatePDF st))
   \<and> count_list (fst (generatePDF st)) (Text [Lit ''Description''] 20 100) = 1
   \<and> (\<forall>k < length (items st).
         set (item_row (items st ! k) (110 + 10 * of_nat k)) \<subseteq> set (fst (generatePDF st)))
   \<and> Text [Lit ''Total: $'', Fixed (invoice_total (items st))] 140 (140 + 10 * of_nat (length (items st)))
        \<in> set (fst (generatePDF st))"
  using generatePDF_no_AddPage [of st] generatePDF_header_once [of st] generatePDF_row [of _ st]
    generatePDF_totals [of st]
  by blast

theorem single_page_layout_witness:
  "Text [Lit ''Consulting''] 20 400 \<in> set (fst (generatePDF long_invoice))
   \<and> Text [Num 1] 120 400 \<in> set (fst (generatePDF long_invoice))
   \<and> Text [Lit ''Total: $'', Fixed 3240] 140 440 \<in> set (fst (generatePDF long_invoice))"
proof -
  have k: "29 < length (items long_invoice)"
    by (simp add: long_invoice_def)
  have t: "invoice_total (items long_invoice) = 3240"
    by (simp add: long_invoice_def consulting_def invoice_total_def tax_def subtotal_sum
          sum_list_replicate)
  from single_page_layout [of long_invoice] k
  have "set (item_row (items long_invoice ! 29) (110 + 10 * of_nat 29))
          \<subseteq> set (fst (generatePDF long_invoice))"
    and "Text [Lit ''Total: $'', Fixed (invoice_total (items long_invoice))] 140
           (140 + 10 * of_nat (length (items long_invoice))) \<in> set (fst (generatePDF long_invoice))"
    by blast+
  then show ?thesis
    unfolding t by (simp add: long_invoice_def item_row_def consulting_def)
qed

subsection \<open>C3: word wrap\<close>




subsection \<open>C4: the amount of an edited item\<close>

text \<open>
  C4. For every item list and every edit of the quantity or of the rate through
  \<open>updateItem\<close>, an item with the edited id has the new value and the amount
  \<open>quantity * rate\<close> computed from it; no item with that id keeps a stale amount.
\<close>

theorem updateItem_recomputes_amount:
  assumes "k < length its" and "item_id (its ! k) = i"
  shows "updateItem i (SetQuantity q) its ! k
           = (its ! k)\<lparr>quantity := q, amount := q * rate (its ! k)\<rparr>
       \<and> updateItem i (SetRate r) its ! k
           = (its ! k)\<lparr>rate := r, amount := quantity (its ! k) * r\<rparr>
       \<and> (quantity_or_rate e \<longrightarrow>
            (\<forall>item \<in> set (updateItem i e its).
               item_id item = i \<longrightarrow> amount item = quantity item * rate item))"
  using updateItem_nth [OF assms] updateItem_fresh [of e _ i its]
  by blast

theorem updateItem_recomputes_amount_witness:
  "0 < length initial_items \<and> item_id (initial_items ! 0) = ''1''
   \<and> updateItem ''1'' (SetRate 50) initial_items
       = [\<lparr>item_id = ''1'', description = '''', quantity = 1, rate = 50, amount = 50\<rparr>]
   \<and> updateItem ''1'' (SetQuantity 2) (updateItem ''1'' (SetRate 50) initial_items)
       = [\<lparr>item_id = ''1'', description = '''', quantity = 2, rate = 50, amount = 100\<rparr>]"
proof -
  have a: "0 < length initial_items" "item_id (initial_items ! 0) = ''1''"
    by (simp_all add: initial_items_def)
  have len: "length (updateItem ''1'' (SetRate 50) initial_items) = 1"
    by (simp add: length_updateItem initial_items_def)
  from updateItem_recomputes_amount [OF a, of 2 50]
  have r: "updateItem ''1'' (SetRate 50) initial_items ! 0
            = \<lparr>item_id = ''1'', description = '''', quantity = 1, rate = 50, amount = 50\<rparr>"
    by (simp add: initial_items_def)
  with len have r': "updateItem ''1'' (SetRate 50) initial_items
            = [\<lparr>item_id = ''1'', description = '''', quantity = 1, rate = 50, amount = 50\<rparr>]"
    by (cases "updateItem ''1'' (SetRate 50) initial_items") simp_all
  have q: "updateItem ''1'' (SetQuantity 2) (updateItem ''1'' (SetRate 50) initial_items)
            = [\<lparr>item_id = ''1'', description = '''', quantity = 2, rate = 50, amount = 100\<rparr>]"
    unfolding r' by (simp add: updateItem_def)
  from a r' q show ?thesis by simp
qed

subsection \<open>C5: theme fallbacks\<close>

text \<open>
  C5. Each of the five theme values is resolved on its own: the applied theme's value
  where a theme is applied and the value is not empty, and otherwise the default of
  that field (\<open>#2563eb\<close>, \<open>#1f2937\<close>, \<open>#f59e0b\<close>, and the inherited font for the
  heading and the body).
\<close>

theorem theme_fallbacks_fieldwise:
  "primaryColor th =
     (case th of None \<Rightarrow> ''#2563eb''
      | Some t \<Rightarrow> if primary (colors t) = '''' then ''#2563eb'' else primary (colors t))
   \<and> secondaryColor th =
     (case th of None \<Rightarrow> ''#1f2937''
      | Some t \<Rightarrow> if secondary (colors t) = '''' then ''#1f2937'' else secondary (colors t))
   \<and> accentColor th =
     (case th of None \<Rightarrow> ''#f59e0b''
      | Some t \<Rightarrow> if accent (colors t) = '''' then ''#f59e0b'' else accent (colors t))
   \<and> headingFont th =
     (case th of None \<Rightarrow> ''inherit''
      | Some t \<Rightarrow> if heading (fonts t) = '''' then ''inherit'' else heading (fonts t))
   \<and> bodyFont th =
     (case th of None \<Rightarrow> ''inherit''
      | Some t \<Rightarrow> if body (fonts t) = '''' then ''inherit'' else body (fonts t))"
  by (cases th)
     (simp_all add: primaryColor_def secondaryColor_def accentColor_def headingFont_def
        bodyFont_def or_default_def)

theorem theme_fallbacks_fieldwise_witness:
  "primaryColor (Some only_primary) = ''#ff0000''
   \<and> secondaryColor (Some only_primary) = ''#1f2937''
   \<and> accentColor (Some only_primary) = ''#f59e0b''
   \<and> headingFont (Some only_primary) = ''inherit''
   \<and> bodyFont (Some only_primary) = ''inherit''
   \<and> primaryColor None = ''#2563eb''
   \<and> secondaryColor None = ''#1f2937''
   \<and> accentColor None = ''#f59e0b''
   \<and> headingFont None = ''inherit''
   \<and> bodyFont None = ''inherit''"
  using theme_fallbacks_fieldwise [of "Some only_primary"] theme_fallbacks_fieldwise [of None]
  by (simp add: only_primary_def)

subsection \<open>Where the time reaches the layout\<close>

text \<open>
  That the same document exported twice gives the same bytes (C6) is not stated as a
  theorem of this development. An export is a function here, so the same inputs give
  the same calls by construction, and that says nothing of the code; the bytes that
  \<open>jsPDF\<close> writes from the calls are the library's and are not modelled. The lemma
  records only where the time reaches the calls: the ids of the items, which hold the
  time of their creation, do not reach the editor's document, and two documents of the
  form for the same data differ only in the text of the date line and of the invoice
  number line (calls 5 and 6).
\<close>

lemma layout_ignores_ids_and_differs_in_time_lines:
  "generatePDF (st\<lparr>items := map (\<lambda>item. item\<lparr>item_id := f item\<rparr>) (items st)\<rparr>) = generatePDF st
   \<and> take 5 (generatePDF_form be d1 n1 fd) = take 5 (generatePDF_form be d2 n2 fd)
   \<and> drop 7 (generatePDF_form be d1 n1 fd) = drop 7 (generatePDF_form be d2 n2 fd)
   \<and> generatePDF_form be d1 n1 fd ! 5 = Text [Lit (''Invoice Date: '' @ d1)] 20 50
   \<and> generatePDF_form be d1 n1 fd ! 6 = Text [Lit (''Invoice #: INV-'' @ show_nat n1)] 20 60
   \<and> length (generatePDF_form be d1 n1 fd) = length (generatePDF_form be d2 n2 fd)"
  by (simp add: generatePDF_ids) (simp add: generatePDF_form_def Let_def)

subsection \<open>C7: the file name\<close>

text \<open>
  C7, as stated, has a fallback identifier take the place of an empty invoice number.
  The code has none: with the empty invoice number the file is saved as
  \<open>invoice-.pdf\<close>.
\<close>

theorem empty_number_gets_no_fallback:
  "invoiceNumber unnumbered = ''''
   \<and> saved_names (fst (generatePDF unnumbered)) = [''invoice-.pdf'']"
  by (simp add: generatePDF_saved_names) (simp add: unnumbered_def)

text \<open>
  C7, amended. The editor saves exactly one file, named \<open>invoice-\<close>, the invoice
  number as it stands (the empty one included), \<open>.pdf\<close>. The form does not name its
  attachment after the invoice number: the name is \<open>invoice-\<close>, the client name in
  lower case with each run of white space replaced by a hyphen, a hyphen, the clock
  reading of line 199, \<open>.pdf\<close>.
\<close>

theorem file_names:
  "saved_names (fst (generatePDF st)) = [''invoice-'' @ invoiceNumber st @ ''.pdf'']
   \<and> (fst (validateForm w) \<longrightarrow>
        map filename (attachments (last (sent (projr (handleGenerateAndSend be sendEmail clk w)))))
          = [''invoice-'' @ toLowerCase (replace_spaces (clientName (formData w))) @ ''-''
             @ show_nat (attachment_now clk) @ ''.pdf''])"
  by (simp add: generatePDF_saved_names handle_sent request_filename)

theorem file_names_witness:
  "saved_names (fst (generatePDF sample_invoice)) = [''invoice-INV-001.pdf'']
   \<and> fst (validateForm filled_form)
   \<and> map filename
        (attachments (last (sent (projr (handleGenerateAndSend a4 mailbox_full first_click filled_form)))))
       = [''invoice-acme-ltd-1001.pdf'']"
proof -
  have "toLowerCase (replace_spaces ''Acme Ltd'') = ''acme-ltd''"
    by code_simp
  moreover have "show_nat 1001 = ''1001''"
    by (simp add: show_nat.simps digit_def)
  ultimately show ?thesis
    using file_names [of sample_invoice filled_form a4 mailbox_full first_click] filled_form_valid
    by (simp add: sample_invoice_def filled_form_def first_click_def)
qed

subsection \<open>C8: a failed delivery\<close>

text \<open>
  C8, as stated, has the delivery error reach the caller unchanged and the document
  kept for a retry of the delivery alone. When the mail service answers with an error,
  the handler's promise is fulfilled, the only toast is the generic one, and the retry
  sends a second document that was generated anew (it carries another invoice number).
\<close>

theorem delivery_error_is_swallowed:
  "\<not> isl (handleGenerateAndSend a4 mailbox_full first_click filled_form)
   \<and> toasts (projr (handleGenerateAndSend a4 mailbox_full first_click filled_form)) = [failure_toast]
   \<and> sent (projr (handleGenerateAndSend a4 mailbox_full second_click
              (projr (handleGenerateAndSend a4 mailbox_full first_click filled_form))))
       = [the_request a4 first_click (formData filled_form),
          the_request a4 second_click (formData filled_form)]
   \<and> content (hd (attachments (the_request a4 first_click (formData filled_form))))
       \<noteq> content (hd (attachments (the_request a4 second_click (formData filled_form))))"
proof -
  let ?w1 = "projr (handleGenerateAndSend a4 mailbox_full first_click filled_form)"
  have one: "handleGenerateAndSend a4 mailbox_full first_click filled_form =
      Inr (filled_form\<lparr>isGenerating := False, isSending := False,
             toasts := toasts filled_form @ [failure_toast],
             console := console filled_form @ [Log ''Generating PDF invoice...'',
                                               Log ''Sending email with invoice...'',
                                               Error ''Error generating or sending invoice:''
                                                 ''Mailbox unavailable''],
             sent := sent filled_form @ [the_request a4 first_click (formData filled_form)]\<rparr>)"
    by (rule handle_failure [OF filled_form_valid]) (simp add: mailbox_full_def)
  then have fd: "formData ?w1 = formData filled_form"
    and s1: "sent ?w1 = [the_request a4 first_click (formData filled_form)]"
    and t1: "toasts ?w1 = [failure_toast]"
    by (simp_all add: filled_form_def)
  from validateForm_formData [OF fd] filled_form_valid have "fst (validateForm ?w1)"
    by simp
  from handle_sent [OF this, of a4 mailbox_full second_click]
  have s2: "sent (projr (handleGenerateAndSend a4 mailbox_full second_click ?w1))
      = [the_request a4 first_click (formData filled_form),
         the_request a4 second_click (formData filled_form)]"
    by (simp add: s1 fd)
  have "show_nat 1000 = ''1000''" and "show_nat 9000 = ''9000''"
    by (simp_all add: show_nat.simps digit_def)
  then have "content (hd (attachments (the_request a4 first_click (formData filled_form))))
       \<noteq> content (hd (attachments (the_request a4 second_click (formData filled_form))))"
    by (simp add: the_request_def request_def generatePDF_form_def Let_def first_click_def
          second_click_def)
  with handle_fulfilled [of a4 mailbox_full first_click filled_form] t1 s2 show ?thesis
    by simp
qed

text \<open>
  C8, amended. When the delivery fails (the promise of \<open>sendEmail\<close> is rejected, or it
  is fulfilled with a non-empty \<open>error\<close>), \<open>handleGenerateAndSend\<close> catches the error: its
  own promise is fulfilled, the error message goes to the console only, one generic
  failure toast is shown, both busy flags are reset and the form data are kept. The
  document is a local value of the run and is not kept: the world after the run differs
  from the world before it in the flags, the toast, the console and the sent mail only.
\<close>

theorem delivery_failure_is_caught:
  assumes "fst (validateForm w)"
    and "sendEmail (the_request be clk (formData w)) = Rejected e
         \<or> sendEmail (the_request be clk (formData w)) = Fulfilled (Some e) \<and> e \<noteq> ''''"
  shows "handleGenerateAndSend be sendEmail clk w =
           Inr (w\<lparr>isGenerating := False, isSending := False,
                  toasts := toasts w @ [failure_toast],
                  console := console w @ [Log ''Generating PDF invoice...'',
                                          Log ''Sending email with invoice...'',
                                          Error ''Error generating or sending invoice:'' e],
                  sent := sent w @ [the_request be clk (formData w)]\<rparr>)"
  using assms by (rule handle_failure)

theorem delivery_failure_is_caught_witness:
  "fst (validateForm filled_form)
   \<and> mailbox_full (the_request a4 first_click (formData filled_form))
       = Fulfilled (Some ''Mailbox unavailable'')
   \<and> handleGenerateAndSend a4 mailbox_full first_click filled_form =
       Inr (filled_form\<lparr>toasts := [failure_toast],
              console := [Log ''Generating PDF invoice...'',
                          Log ''Sending email with invoice...'',
                          Error ''Error generating or sending invoice:'' ''Mailbox unavailable''],
              sent := [the_request a4 first_click (formData filled_form)]\<rparr>)"
proof -
  have m: "mailbox_full (the_request a4 first_click (formData filled_form))
            = Fulfilled (Some ''Mailbox unavailable'')"
    by (simp add: mailbox_full_def)
  then have "mailbox_full (the_request a4 first_click (formData filled_form))
               = Rejected ''Mailbox unavailable''
             \<or> mailbox_full (the_request a4 first_click (formData filled_form))
                 = Fulfilled (Some ''Mailbox unavailable'') \<and> ''Mailbox unavailable'' \<noteq> ''''"
    by simp
  from delivery_failure_is_caught [where w = filled_form and sendEmail = mailbox_full
      and be = a4 and clk = first_click and e = "''Mailbox unavailable''", OF filled_form_valid this]
    filled_form_valid m
  show ?thesis
    by (simp add: filled_form_def)
qed

subsection \<open>C9: validation\<close>

text \<open>
  C9. \<open>validateForm\<close> rejects exactly when a required field is missing or malformed:
  the client name, the service description or the user's name is empty (\<open>blank\<close>: it
  has no character that is not white space, which is the code's test \<open>!x.trim()\<close>),
  the hours or the rate are not positive, or the email has no \<open>@\<close>. When it rejects,
  \<open>handleGenerateAndSend\<close> returns at once: the world changes by one validation toast
  only, so nothing is logged, generated or sent. The handler's promise is never
  rejected.
\<close>

theorem validation_gate:
  "(fst (validateForm w) \<longleftrightarrow>
      \<not> blank (clientName (formData w)) \<and> \<not> blank (serviceDescription (formData w))
      \<and> 0 < totalHours (formData w) \<and> 0 < hourlyRate (formData w)
      \<and> \<not> blank (userName (formData w)) \<and> CHR ''@'' \<in> set (userEmail (formData w)))
   \<and> (\<not> fst (validateForm w) \<longrightarrow>
        (\<exists>d. handleGenerateAndSend be sendEmail clk w
               = Inr (w\<lparr>toasts := toasts w @ [validation_error d]\<rparr>)))
   \<and> \<not> isl (handleGenerateAndSend be sendEmail clk w)"
  using validateForm_iff [of w] handle_invalid [of w be sendEmail clk]
    handle_fulfilled [of be sendEmail clk w]
  by blast

theorem validation_gate_witness:
  "\<not> fst (validateForm spaced_name)
   \<and> blank (clientName (formData spaced_name))
   \<and> sent (projr (handleGenerateAndSend a4 mailbox_full first_click spaced_name)) = []
   \<and> console (projr (handleGenerateAndSend a4 mailbox_full first_click spaced_name)) = []
   \<and> length (toasts (projr (handleGenerateAndSend a4 mailbox_full first_click spaced_name))) = 1
   \<and> fst (validateForm filled_form)"
proof -
  have b: "blank (clientName (formData spaced_name))"
    by (simp add: blank_def spaced_name_def filled_form_def is_space_def)
  with validation_gate [of spaced_name a4 mailbox_full first_click]
  have no: "\<not> fst (validateForm spaced_name)"
    and ex: "\<exists>d. handleGenerateAndSend a4 mailbox_full first_click spaced_name
               = Inr (spaced_name\<lparr>toasts := toasts spaced_name @ [validation_error d]\<rparr>)"
    by blast+
  from ex obtain d where "handleGenerateAndSend a4 mailbox_full first_click spaced_name
               = Inr (spaced_name\<lparr>toasts := toasts spaced_name @ [validation_error d]\<rparr>)" ..
  then have "sent (projr (handleGenerateAndSend a4 mailbox_full first_click spaced_name)) = []"
    and "console (projr (handleGenerateAndSend a4 mailbox_full first_click spaced_name)) = []"
    and "length (toasts (projr (handleGenerateAndSend a4 mailbox_full first_click spaced_name))) = 1"
    by (simp_all add: spaced_name_def filled_form_def)
  with no b filled_form_valid show ?thesis
    by simp
qed

subsection \<open>C10: the item list is never empty\<close>

text \<open>
  C10. \<open>removeItem\<close> keeps the list when it has one item and filters by id otherwise,
  which removes every item with that id. Two items added at the same reading of the
  clock share their id; once the first item is removed, removing one of the two removes
  both and leaves the list empty.
\<close>

theorem duplicate_ids_empty_the_list:
  "run [AddItem 1700000000000, AddItem 1700000000000, RemoveItem ''1'',
        RemoveItem ''1700000000000''] = []"
  by (simp add: run_def addItem_def removeItem_def initial_items_def show_nat.simps digit_def)

end
